theory Spec2Isabelle
  imports Complex_Main "HOL-Library.Stream" "HOL-Library.Product_Lexorder"
begin

section \<open>Numbers, dates and the random sources\<close>

text \<open>
  Python's floats are modelled by exact real numbers: \<open>int(x)\<close> truncates towards zero and
  \<open>round(x, 2)\<close> rounds to the nearest hundredth, ties to the even neighbour.
\<close>

definition py_int :: "real \<Rightarrow> int" where
  "py_int q = (if 0 \<le> q then \<lfloor>q\<rfloor> else \<lceil>q\<rceil>)"

definition round_half_even :: "real \<Rightarrow> int" where
  "round_half_even q =
     (let f = \<lfloor>q\<rfloor>; d = q - of_int f
      in if d < 1 / 2 then f else if 1 / 2 < d then f + 1
         else if even f then f else f + 1)"

definition py_round2 :: "real \<Rightarrow> real" where
  "py_round2 q = of_int (round_half_even (q * 100)) / 100"

text \<open>
  A \<open>datetime.date\<close> is the triple (year, month, day); the comparison of two dates is the
  lexicographic order of the triples. Adding a \<open>timedelta\<close> goes through the proleptic
  Gregorian ordinal, as \<open>date.__add__\<close> does.
\<close>

type_synonym date = "int \<times> int \<times> int"

definition d_year :: "date \<Rightarrow> int" where "d_year d = fst d"
definition d_month :: "date \<Rightarrow> int" where "d_month d = fst (snd d)"
definition d_day :: "date \<Rightarrow> int" where "d_day d = snd (snd d)"

definition is_leap :: "int \<Rightarrow> bool" where
  "is_leap y = (y mod 4 = 0 \<and> (y mod 100 \<noteq> 0 \<or> y mod 400 = 0))"

definition days_before_year :: "int \<Rightarrow> int" where
  "days_before_year yr = (let y = yr - 1 in y * 365 + y div 4 - y div 100 + y div 400)"

definition days_in_month :: "int \<Rightarrow> int \<Rightarrow> int" where
  "days_in_month y m =
     (if m = 2 \<and> is_leap y then 29
      else [31, 28, 31, 30, 31, 30, 31, 31, 30, 31, 30, 31] ! nat (m - 1))"

definition days_before_month :: "int \<Rightarrow> int \<Rightarrow> int" where
  "days_before_month y m =
     [0, 31, 59, 90, 120, 151, 181, 212, 243, 273, 304, 334] ! nat (m - 1)
       + (if 2 < m \<and> is_leap y then 1 else 0)"

definition toordinal :: "date \<Rightarrow> int" where
  "toordinal d = days_before_year (d_year d) + days_before_month (d_year d) (d_month d) + d_day d"

definition fromordinal :: "int \<Rightarrow> date" where
  "fromordinal n0 =
     (let n = n0 - 1;
          n400 = n div 146097; n = n mod 146097;
          n100 = n div 36524; n = n mod 36524;
          n4 = n div 1461; n = n mod 1461;
          n1 = n div 365; n = n mod 365;
          yr = n400 * 400 + 1 + n100 * 100 + n4 * 4 + n1
      in if n1 = 4 \<or> n100 = 4 then (yr - 1, 12, 31)
         else
           let leapyear = (n1 = 3 \<and> (n4 \<noteq> 24 \<or> n100 = 3));
               m = (n + 50) div 32;
               preceding = [0, 31, 59, 90, 120, 151, 181, 212, 243, 273, 304, 334] ! nat (m - 1)
                             + (if 2 < m \<and> leapyear then 1 else 0)
           in if n < preceding
              then let m' = m - 1;
                       preceding' = preceding
                          - ([31, 28, 31, 30, 31, 30, 31, 31, 30, 31, 30, 31] ! nat (m' - 1)
                              + (if m' = 2 \<and> leapyear then 1 else 0))
                   in (yr, m', n - preceding' + 1)
              else (yr, m, n - preceding + 1))"

definition add_days :: "date \<Rightarrow> int \<Rightarrow> date" where
  "add_days d n = fromordinal (toordinal d + n)"

definition days_between :: "date \<Rightarrow> date \<Rightarrow> int" where
  \<comment> \<open>\<open>(a - b).days\<close>\<close>
  "days_between a b = toordinal a - toordinal b"

text \<open>
  The module \<open>random\<close> is a stream of uniform draws from \<open>[0, 1)\<close>; every primitive takes
  the head of the stream and returns the rest. \<open>randbelow n\<close> is the uniform index below
  \<open>n\<close> on which \<open>randint\<close>, \<open>choice\<close> and \<open>sample\<close> are built; \<open>choices\<close> with weights
  and \<open>k = 1\<close> bisects the cumulative weights at \<open>random() * total\<close>.
\<close>

type_synonym rng = "real stream"

definition rnd_random :: "rng \<Rightarrow> real \<times> rng" where
  "rnd_random g = (frac (shd g), stl g)"

definition randbelow :: "nat \<Rightarrow> rng \<Rightarrow> nat \<times> rng" where
  "randbelow n g = (nat \<lfloor>frac (shd g) * of_nat n\<rfloor>, stl g)"

definition randint :: "int \<Rightarrow> int \<Rightarrow> rng \<Rightarrow> int \<times> rng" where
  "randint a b g = (let (k, g') = randbelow (nat (b - a + 1)) g in (a + int k, g'))"

definition choice :: "'a list \<Rightarrow> rng \<Rightarrow> 'a \<times> rng" where
  \<comment> \<open>only called on non-empty lists (on an empty one Python raises IndexError)\<close>
  "choice xs g = (let (k, g') = randbelow (length xs) g in (xs ! k, g'))"

fun bisect :: "real list \<Rightarrow> real \<Rightarrow> nat" where
  \<comment> \<open>\<open>bisect_right\<close> on a sorted list: the number of entries that are at most \<open>x\<close>\<close>
  "bisect [] x = 0"
| "bisect (c # cs) x = (if c \<le> x then Suc (bisect cs x) else 0)"

fun accumulate :: "real \<Rightarrow> real list \<Rightarrow> real list" where
  "accumulate s [] = []"
| "accumulate s (w # ws) = (s + w) # accumulate (s + w) ws"

definition choices1 :: "'a list \<Rightarrow> real list \<Rightarrow> rng \<Rightarrow> 'a \<times> rng" where
  \<comment> \<open>\<open>random.choices(population, weights)[0]\<close>, population non-empty\<close>
  "choices1 xs ws g =
     (let cum = accumulate 0 ws; total = last cum; (u, g') = rnd_random g
      in (xs ! bisect (butlast cum) (u * total), g'))"

section \<open>Response rate of an appeal\<close>

record giving_patterns =
  december_weight :: real
  giving_tuesday_weight :: real
  appeal_response_rate :: "(string \<times> real) list"

record appeal =
  a_appeal_id :: nat
  a_campaign_id :: nat
  a_name :: string
  a_type :: string
  a_seasonal :: string
  a_start_date :: date
  a_end_date :: date
  a_goal_amount :: int
  a_description :: string

definition default_giving_patterns :: giving_patterns where
  "default_giving_patterns =
     \<lparr> december_weight = 3 / 10, giving_tuesday_weight = 1 / 10,
       appeal_response_rate =
         [(''Direct Mail'', 15 / 100), (''Email'', 8 / 100), (''Event'', 25 / 100),
          (''Giving Tuesday'', 20 / 100), (''Phone'', 12 / 100), (''Social Media'', 5 / 100),
          (''Board Giving'', 80 / 100), (''Peer to Peer'', 15 / 100)] \<rparr>"

definition base_response_rate :: "giving_patterns \<Rightarrow> appeal \<Rightarrow> real" where
  "base_response_rate gp a =
     (case map_of (appeal_response_rate gp) (a_type a) of None \<Rightarrow> 10 / 100 | Some r \<Rightarrow> r)"

definition response_rate :: "giving_patterns \<Rightarrow> appeal \<Rightarrow> real" where
  "response_rate gp a =
     (let is_december_appeal = (a_seasonal a = ''December'');
          is_giving_tuesday = (a_seasonal a = ''Giving Tuesday'')
      in if is_december_appeal then base_response_rate gp a * (1 + december_weight gp)
         else if is_giving_tuesday then base_response_rate gp a * (1 + giving_tuesday_weight gp)
         else base_response_rate gp a)"

section \<open>Data model\<close>

text \<open>
  The tables are lists of rows; a row is a record with the keys of the source's dict. The
  generator object \<open>self\<close> is the record \<open>generator\<close>. A dict is an association list
  read with \<open>map_of\<close>.
\<close>

record constituent =
  c_constituent_id :: nat
  c_type :: string
  c_organization_name :: "string option"
  c_organization_type :: "string option"
  c_first_name :: "string option"
  c_last_name :: "string option"
  c_gender :: "string option"
  c_email :: string
  c_phone :: string
  c_address :: string
  c_city :: string
  c_state :: string
  c_postal_code :: string
  c_creation_date :: date
  c_lifetime_giving :: real
  c_first_gift_date :: "date option"
  c_last_gift_date :: "date option"

record segment =
  s_frequency :: string
  s_level :: string
  s_giving_trend :: string
  s_cause_affinity :: "nat list"

record campaign =
  cp_campaign_id :: nat
  cp_name :: string
  cp_type :: string
  cp_start_date :: date
  cp_end_date :: date
  cp_goal_amount :: int
  cp_description :: string

record campaign_fund =
  cf_campaign_id :: nat
  cf_fund_id :: nat
  cf_weight :: real
  cf_is_primary :: bool

record transaction =
  t_transaction_id :: nat
  t_constituent_id :: nat
  t_appeal_id :: nat
  t_campaign_id :: nat
  t_fund_id :: nat
  t_date :: date
  t_amount :: real
  t_payment_method :: string
  t_type :: string
  t_status :: string

record pledge =
  p_pledge_id :: nat
  p_constituent_id :: nat
  p_campaign_id :: nat
  p_total_amount :: real
  p_installment_amount :: real
  p_start_date :: date
  p_frequency :: string
  p_installments :: int
  p_status :: string

record pledge_payment =
  pp_payment_id :: nat
  pp_pledge_id :: nat
  pp_amount :: real
  pp_date :: date
  pp_status :: string

record household =
  h_household_id :: nat
  h_name :: string
  h_constituent_id :: nat
  h_primary_constituent_id :: nat
  h_is_primary :: bool
  h_address :: string
  h_city :: string
  h_state :: string
  h_postal_code :: string
  h_creation_date :: date

record generator =
  start_date :: date
  end_date :: date
  num_constituents :: nat
  transaction_volume_multiplier :: real
  organization_percentage :: real
  pledge_percentage :: real
  giving_patterns :: giving_patterns
  constituents :: "constituent list"
  households :: "household list"
  funds :: "nat list"
  campaigns :: "campaign list"
  campaign_funds :: "campaign_fund list"
  appeals :: "appeal list"
  transactions :: "transaction list"
  donor_segments :: "(nat \<times> segment) list"
  state_weights :: "(string \<times> real) list"

text \<open>
  Faker has its own seeded random source. Its word lists are not part of the repository:
  a text provider returns the next entry of a stream of strings, and \<open>date_between\<close>
  picks a day of the closed range from the next uniform draw (an empty range raises).
\<close>

record faker =
  fk_text :: "string stream"
  fk_unif :: "real stream"

definition fake_text :: "faker \<Rightarrow> string \<times> faker" where
  "fake_text f = (shd (fk_text f), f\<lparr>fk_text := stl (fk_text f)\<rparr>)"

definition date_between :: "date \<Rightarrow> date \<Rightarrow> faker \<Rightarrow> (date \<times> faker) option" where
  "date_between s e f =
     (if e < s then None
      else Some (add_days s (int (fst (randbelow (nat (days_between e s + 1)) (fk_unif f)))),
                 f\<lparr>fk_unif := stl (fk_unif f)\<rparr>))"

fun sample :: "'a list \<Rightarrow> nat \<Rightarrow> rng \<Rightarrow> 'a list \<times> rng" where
  \<comment> \<open>\<open>random.sample\<close> by its pool algorithm: the drawn slot is refilled with the last
      entry of the pool and the pool shrinks by one; \<open>k\<close> is at most the length\<close>
  "sample pool 0 g = ([], g)"
| "sample pool (Suc k) g =
     (let (j, g1) = randbelow (length pool) g;
          (rest, g2) = sample (butlast (pool[j := last pool])) k g1
      in (pool ! j # rest, g2))"

section \<open>Pledge Engine\<close>

definition dict_keys :: "nat list \<Rightarrow> nat list" where
  \<comment> \<open>the keys of a dict filled in this order: first occurrences, in order\<close>
  "dict_keys ks = rev (remdups (rev ks))"

definition frequency_mapping :: "(string \<times> string list) list" where
  "frequency_mapping =
     [(''One-time'', [''Annual'']),
      (''Occasional'', [''Annual'', ''Quarterly'']),
      (''Regular'', [''Monthly'', ''Quarterly'']),
      (''Loyal'', [''Monthly'', ''Quarterly'', ''Annual''])]"

definition period_days :: "string \<Rightarrow> int" where
  \<comment> \<open>the \<open>if Monthly / elif Quarterly / else\<close> chain on the frequency: 30, 90 or 365 days\<close>
  "period_days frequency =
     (if frequency = ''Monthly'' then 30 else if frequency = ''Quarterly'' then 90 else 365)"

definition payments_to_generate :: "string \<Rightarrow> string \<Rightarrow> int \<Rightarrow> date \<Rightarrow> date \<Rightarrow> rng \<Rightarrow> int \<times> rng" where
  \<comment> \<open>lines 1092 to 1110, inside the branch that generates payments\<close>
  "payments_to_generate status frequency installments start current_date g =
     (if status = ''Active''
      then let elapsed_time = days_between current_date start;
               periods_elapsed = elapsed_time div period_days frequency
           in (min (periods_elapsed + 1) installments, g)
      else if status = ''Cancelled''
      then randint 0 (max 1 (installments - 1)) g
      else (installments, g))"

fun payment_rows :: "pledge \<Rightarrow> int \<Rightarrow> nat \<Rightarrow> nat list \<Rightarrow> rng \<Rightarrow> pledge_payment list \<times> nat \<times> rng" where
  \<comment> \<open>the loop \<open>for i in range(payments_to_generate)\<close>; \<open>n\<close> is \<open>payments_to_generate\<close>\<close>
  "payment_rows p n payment_id [] g = ([], payment_id, g)"
| "payment_rows p n payment_id (i # is) g =
     (let payment_date = add_days (p_start_date p) (period_days (p_frequency p) * int i);
          (payment_status, g1) =
             (if p_status p = ''Active'' \<and> int i = n - 1
              then let (u, g') = rnd_random g
                   in (if u < 2 / 10 then ''Pending'' else ''Completed'', g')
              else (''Completed'', g));
          payment = \<lparr> pp_payment_id = payment_id, pp_pledge_id = p_pledge_id p,
                      pp_amount = p_installment_amount p, pp_date = payment_date,
                      pp_status = payment_status \<rparr>;
          (rest, payment_id', g2) = payment_rows p n (payment_id + 1) is g1
      in (payment # rest, payment_id', g2))"

definition pledge_payments_for :: "pledge \<Rightarrow> date \<Rightarrow> nat \<Rightarrow> rng \<Rightarrow> pledge_payment list \<times> nat \<times> rng" where
  \<comment> \<open>lines 1091 to 1134: \<open>random.random()\<close> is drawn only for a cancelled pledge\<close>
  "pledge_payments_for p current_date payment_id g =
     (let (go, g1) = (if p_status p \<noteq> ''Cancelled'' then (True, g)
                      else let (u, g') = rnd_random g in (u < 3 / 10, g'))
      in if go
         then let (n, g2) = payments_to_generate (p_status p) (p_frequency p) (p_installments p)
                               (p_start_date p) current_date g1
              in payment_rows p n payment_id [0 ..< nat n] g2
         else ([], payment_id, g1))"

definition pledge_for_donor ::
  "generator \<Rightarrow> date \<Rightarrow> nat \<Rightarrow> nat \<Rightarrow> rng \<Rightarrow> faker \<Rightarrow> (pledge \<times> rng \<times> faker) option" where
  \<comment> \<open>lines 978 to 1088, the body of the loop over the pledge donors up to the pledge row;
      \<open>None\<close> is an exception (no such constituent, or no campaign to choose from)\<close>
  "pledge_for_donor self current_date pledge_id donor_id g f =
     (case find (\<lambda>c. c_constituent_id c = donor_id) (constituents self) of
        None \<Rightarrow> None
      | Some donor \<Rightarrow>
         let donor_transactions = filter (\<lambda>t. t_constituent_id t = donor_id) (transactions self);
             avg_gift = sum_list (map t_amount donor_transactions) / of_nat (length donor_transactions);
             seg_frequency = (case map_of (donor_segments self) donor_id of
                                None \<Rightarrow> ''One-time'' | Some seg \<Rightarrow> s_frequency seg);
             pledge_frequencies = (case map_of frequency_mapping seg_frequency of
                                     None \<Rightarrow> [''Annual''] | Some fs \<Rightarrow> fs);
             (pledge_type, g1) = choice pledge_frequencies g;
             earlier_date_1 = c_creation_date donor;
             earlier_date_2 = (case c_first_gift_date donor of
                                 None \<Rightarrow> c_creation_date donor | Some d \<Rightarrow> d);
             earliest_start = max earlier_date_1 earlier_date_2;
             (start, f1) = (case date_between earliest_start (add_days (end_date self) (- 90)) f of
                              None \<Rightarrow> (earliest_start, f) | Some r \<Rightarrow> r);
             (installments, g2) =
                (if pledge_type = ''Monthly'' then choice [12, 24, 36] g1
                 else if pledge_type = ''Quarterly'' then choice [4, 8] g1
                 else choice [1, 2, 3] g1);
             frequency = (if pledge_type = ''Monthly'' then ''Monthly''
                          else if pledge_type = ''Quarterly'' then ''Quarterly'' else ''Annual'');
             installment_amount =
                (if frequency = ''Monthly'' then py_round2 (avg_gift * (15 / 10))
                 else if frequency = ''Quarterly'' then py_round2 (avg_gift * 3)
                 else py_round2 (avg_gift * 5));
             total_amount = py_round2 (installment_amount * of_int installments);
             active_campaigns = filter (\<lambda>c. cp_start_date c \<le> start \<and> start \<le> cp_end_date c)
                                  (campaigns self)
         in if campaigns self = [] then None
            else
              let (camp, g3) = (if active_campaigns = [] then choice (campaigns self) g2
                                else choice active_campaigns g2);
                  pledge_end = add_days start (period_days frequency * installments);
                  (status, g4) =
                     (if current_date < pledge_end
                      then choices1 [''Active'', ''Cancelled''] [9 / 10, 1 / 10] g3
                      else choices1 [''Completed'', ''Cancelled''] [85 / 100, 15 / 100] g3)
              in Some (\<lparr> p_pledge_id = pledge_id, p_constituent_id = donor_id,
                          p_campaign_id = cp_campaign_id camp, p_total_amount = total_amount,
                          p_installment_amount = installment_amount, p_start_date = start,
                          p_frequency = frequency, p_installments = installments,
                          p_status = status \<rparr>, g4, f1))"

fun pledges_loop ::
  "generator \<Rightarrow> date \<Rightarrow> nat \<Rightarrow> nat \<Rightarrow> nat list \<Rightarrow> rng \<Rightarrow> faker
     \<Rightarrow> (pledge list \<times> pledge_payment list \<times> rng \<times> faker) option" where
  \<comment> \<open>the loop \<open>for donor_id in pledge_donors\<close>\<close>
  "pledges_loop self current_date pledge_id payment_id [] g f = Some ([], [], g, f)"
| "pledges_loop self current_date pledge_id payment_id (donor_id # ds) g f =
     (case pledge_for_donor self current_date pledge_id donor_id g f of
        None \<Rightarrow> None
      | Some (p, g1, f1) \<Rightarrow>
         let (pays, payment_id', g2) = pledge_payments_for p current_date payment_id g1
         in (case pledges_loop self current_date (pledge_id + 1) payment_id' ds g2 f1 of
               None \<Rightarrow> None
             | Some (ps, pays', g3, f2) \<Rightarrow> Some (p # ps, pays @ pays', g3, f2)))"

definition generate_pledges ::
  "generator \<Rightarrow> date \<Rightarrow> rng \<Rightarrow> faker \<Rightarrow> (pledge list \<times> pledge_payment list \<times> rng \<times> faker) option" where
  \<comment> \<open>\<open>current_date\<close> is \<open>datetime.now().date()\<close>\<close>
  "generate_pledges self current_date g f =
     (let donor_ids = dict_keys (map t_constituent_id (transactions self));
          eligible_donors =
             filter (\<lambda>d. 2 \<le> length (filter (\<lambda>t. t_constituent_id t = d) (transactions self)))
               donor_ids;
          num_pledge_donors = py_int (of_nat (length eligible_donors) * pledge_percentage self)
      in if eligible_donors = [] \<or> num_pledge_donors = 0 then Some ([], [], g, f)
         else let (pledge_donors, g1) =
                     sample eligible_donors (nat (min num_pledge_donors (int (length eligible_donors)))) g
              in pledges_loop self current_date 1 1 pledge_donors g1 f)"

section \<open>Properties\<close>

lemma round_half_even_close: "\<bar>of_int (round_half_even q) - q\<bar> \<le> 1 / 2"
proof -
  have "of_int \<lfloor>q\<rfloor> \<le> q" "q < of_int \<lfloor>q\<rfloor> + 1" by linarith+
  then show ?thesis
    by (auto simp: round_half_even_def Let_def)
qed

lemma py_round2_close: "\<bar>py_round2 q - q\<bar> \<le> 1 / 200"
proof -
  have "\<bar>of_int (round_half_even (q * 100)) - q * 100\<bar> \<le> 1 / 2"
    by (rule round_half_even_close)
  then show ?thesis
    unfolding py_round2_def by (simp add: field_simps abs_le_iff)
qed

text \<open>
  C8. The effective response rate of an appeal is the base rate of its channel (0.10 when
  the channel is missing from the table), multiplied by \<open>1 + december_weight\<close> for a
  December appeal, by \<open>1 + giving_tuesday_weight\<close> for a Giving-Tuesday appeal, and by
  nothing otherwise.
\<close>

theorem response_rate_effective:
  "response_rate gp a =
     (if a_type a \<in> fst ` set (appeal_response_rate gp)
      then the (map_of (appeal_response_rate gp) (a_type a)) else 10 / 100)
     * (if a_seasonal a = ''December'' then 1 + december_weight gp
        else if a_seasonal a = ''Giving Tuesday'' then 1 + giving_tuesday_weight gp
        else 1)"
proof (cases "map_of (appeal_response_rate gp) (a_type a)")
  case None
  then have "a_type a \<notin> fst ` set (appeal_response_rate gp)"
    by (simp add: map_of_eq_None_iff)
  with None show ?thesis
    by (simp add: response_rate_def base_response_rate_def)
next
  case (Some r)
  then have "a_type a \<in> fst ` set (appeal_response_rate gp)"
    by (metis map_of_eq_None_iff option.distinct(1))
  with Some show ?thesis
    by (simp add: response_rate_def base_response_rate_def)
qed

end
